theory Spec2Isabelle
  imports Complex_Main "HOL-Library.Sublist" "HOL-Library.Word"
begin

section \<open>The browser session controller (src/browser_agent.py)\<close>

text \<open>
  The class \<^verbatim>\<open>BrowserAgent\<close> owns four fields (\<^verbatim>\<open>playwright\<close>, \<^verbatim>\<open>browser\<close>,
  \<^verbatim>\<open>context\<close>, \<^verbatim>\<open>page\<close>) and drives an external browser engine. The engine is not part
  of the repository: it is a parameter of the model, a record of operations over an
  arbitrary engine state \<open>'e\<close>. Every awaited engine call either returns a value or
  raises; a raise is the left injection of a sum. Every awaited call is also appended to
  a log, so that "which engine operations were invoked" is a property of the model.

  Only exceptions derived from Python's \<^verbatim>\<open>Exception\<close> are modelled, split as the source
  splits them: Playwright's \<^verbatim>\<open>TimeoutError\<close> and everything else.
\<close>

subsection \<open>Values\<close>

type_synonym handle = nat
type_synonym byte = "8 word"
type_synonym cookie = "(string \<times> string) list"

datatype exn = PlaywrightTimeoutError string | Exception string

text \<open>\<^verbatim>\<open>str(e)\<close>: the message of an exception.\<close>

fun str :: "exn \<Rightarrow> string" where
  "str (PlaywrightTimeoutError m) = m"
| "str (Exception m) = m"

text \<open>A returned dictionary: its items in the order the source writes them.\<close>

datatype pyval = PStr string | PInt int | PCookies "cookie list"

type_synonym result = "(string \<times> pyval) list"

subsection \<open>The session fields\<close>

record session =
  self_playwright :: "handle option"
  self_browser :: "handle option"
  self_context :: "handle option"
  self_page :: "handle option"

text \<open>\<^verbatim>\<open>__init__\<close>: every field is \<^verbatim>\<open>None\<close>.\<close>

definition init :: session where
  "init = \<lparr>self_playwright = None, self_browser = None, self_context = None, self_page = None\<rparr>"

subsection \<open>The engine\<close>

text \<open>
  One field per engine operation the controller uses. The first argument of an operation
  on an object is the handle of that object. \<open>page_url\<close> is the property \<^verbatim>\<open>page.url\<close>: a
  read of the engine state, which is not awaited and does not raise.
  \<open>page_evaluate\<close> stands for \<^verbatim>\<open>page.evaluate\<close> applied to the fixed content-extraction
  script of \<^verbatim>\<open>get_content\<close>, which runs inside the engine. \<open>page_goto\<close> returns the
  response's status code, or \<open>None\<close> when the engine returns no response.
\<close>

record 'e engine =
  pw_start :: "'e \<Rightarrow> (exn + handle) \<times> 'e"
  chromium_launch :: "handle \<Rightarrow> bool \<Rightarrow> 'e \<Rightarrow> (exn + handle) \<times> 'e"
  browser_new_context :: "handle \<Rightarrow> 'e \<Rightarrow> (exn + handle) \<times> 'e"
  context_new_page :: "handle \<Rightarrow> 'e \<Rightarrow> (exn + handle) \<times> 'e"
  page_set_default_navigation_timeout :: "handle \<Rightarrow> int \<Rightarrow> 'e \<Rightarrow> (exn + unit) \<times> 'e"
  page_goto :: "handle \<Rightarrow> string \<Rightarrow> string \<Rightarrow> 'e \<Rightarrow> (exn + int option) \<times> 'e"
  page_wait_for_load_state :: "handle \<Rightarrow> string \<Rightarrow> rat \<Rightarrow> 'e \<Rightarrow> (exn + unit) \<times> 'e"
  page_url :: "handle \<Rightarrow> 'e \<Rightarrow> string"
  page_title :: "handle \<Rightarrow> 'e \<Rightarrow> (exn + string) \<times> 'e"
  page_reload :: "handle \<Rightarrow> string \<Rightarrow> 'e \<Rightarrow> (exn + unit) \<times> 'e"
  page_click :: "handle \<Rightarrow> string \<Rightarrow> int \<Rightarrow> 'e \<Rightarrow> (exn + unit) \<times> 'e"
  page_fill :: "handle \<Rightarrow> string \<Rightarrow> string \<Rightarrow> int \<Rightarrow> 'e \<Rightarrow> (exn + unit) \<times> 'e"
  page_evaluate :: "handle \<Rightarrow> 'e \<Rightarrow> (exn + string) \<times> 'e"
  page_screenshot :: "handle \<Rightarrow> string \<Rightarrow> 'e \<Rightarrow> (exn + byte list) \<times> 'e"
  browser_close :: "handle \<Rightarrow> 'e \<Rightarrow> (exn + unit) \<times> 'e"
  pw_stop :: "handle \<Rightarrow> 'e \<Rightarrow> (exn + unit) \<times> 'e"
  context_cookies :: "handle \<Rightarrow> 'e \<Rightarrow> (exn + cookie list) \<times> 'e"
  context_add_cookies :: "handle \<Rightarrow> cookie list \<Rightarrow> 'e \<Rightarrow> (exn + unit) \<times> 'e"
  context_delete_cookies :: "handle \<Rightarrow> cookie list \<Rightarrow> 'e \<Rightarrow> (exn + unit) \<times> 'e"

text \<open>The awaited calls, as they are logged.\<close>

datatype call =
    CPwStart
  | CLaunch handle bool
  | CNewContext handle
  | CNewPage handle
  | CSetDefaultNavigationTimeout handle int
  | CGoto handle string string
  | CWaitForLoadState handle string rat
  | CTitle handle
  | CReload handle string
  | CClick handle string int
  | CFill handle string string int
  | CEvaluate handle
  | CScreenshot handle string
  | CBrowserClose handle
  | CPwStop handle
  | CCookies handle
  | CAddCookies handle "cookie list"
  | CDeleteCookies handle "cookie list"

text \<open>The world outside the controller: the engine state and the log of calls made.\<close>

type_synonym 'e world = "'e \<times> call list"

definition invoke :: "call \<Rightarrow> ('e \<Rightarrow> (exn + 'a) \<times> 'e) \<Rightarrow> 'e world \<Rightarrow> (exn + 'a) \<times> 'e world" where
  "invoke c f w = (case f (fst w) of (r, e') \<Rightarrow> (r, (e', snd w @ [c])))"

fun is_reload :: "call \<Rightarrow> bool" where
  "is_reload (CReload p u) = True"
| "is_reload c = False"

fun is_goto :: "call \<Rightarrow> bool" where
  "is_goto (CGoto p url u) = True"
| "is_goto c = False"

subsection \<open>Library functions of Python the controller relies on\<close>

text \<open>
  \<^verbatim>\<open>timeout/2\<close> on a Python int is true division: it yields the double nearest to the
  quotient, ties going to the even significand, and raises \<^verbatim>\<open>OverflowError\<close> when that
  double would not be finite. A double has 53 significant bits, and halving only changes
  the exponent, so the quotient is rounded by rounding the magnitude of \<open>timeout\<close> to
  53 significant bits: \<open>drop_bits n\<close> is the number of low bits of \<open>n\<close> beyond the
  53 leading ones, and \<open>round53 n\<close> is \<open>n\<close> rounded at that position.
\<close>

fun drop_bits :: "nat \<Rightarrow> nat" where
  "drop_bits n = (if n < 2 ^ 53 then 0 else Suc (drop_bits (n div 2)))"

declare drop_bits.simps [simp del]

definition round53 :: "nat \<Rightarrow> nat" where
  "round53 n =
     (let s = drop_bits n;
          m = n div 2 ^ s;
          r = n mod 2 ^ s
      in (if 2 * r > 2 ^ s \<or> (2 * r = 2 ^ s \<and> odd m) then m + 1 else m) * 2 ^ s)"

definition py_truediv2 :: "int \<Rightarrow> exn + rat" where
  "py_truediv2 t =
     (let q = of_int (sgn t) * of_nat (round53 (nat \<bar>t\<bar>)) / 2
      in if \<bar>q\<bar> \<ge> 2 ^ 1024
         then Inl (Exception ''integer division result too large for a float'')
         else Inr q)"

text \<open>\<^verbatim>\<open>base64.b64encode(bytes).decode("utf-8")\<close>.\<close>

definition b64_alphabet :: string where
  "b64_alphabet = ''ABCDEFGHIJKLMNOPQRSTUVWXYZabcdefghijklmnopqrstuvwxyz0123456789+/''"

definition b64_char :: "nat \<Rightarrow> char" where
  "b64_char i = b64_alphabet ! (i mod 64)"

fun b64encode :: "byte list \<Rightarrow> string" where
  "b64encode [] = []"
| "b64encode [a] =
     (let n = unat a * 65536
      in [b64_char (n div 262144), b64_char (n div 4096), CHR ''='', CHR ''=''])"
| "b64encode [a, b] =
     (let n = unat a * 65536 + unat b * 256
      in [b64_char (n div 262144), b64_char (n div 4096), b64_char (n div 64), CHR ''=''])"
| "b64encode (a # b # c # rest) =
     (let n = unat a * 65536 + unat b * 256 + unat c
      in [b64_char (n div 262144), b64_char (n div 4096), b64_char (n div 64), b64_char n]
         @ b64encode rest)"

subsection \<open>Results shared by several methods\<close>

definition not_initialized :: result where
  "not_initialized = [(''error'', PStr ''Browser not initialized. Call /browser/start first.'')]"

definition no_active_page :: result where
  "no_active_page = [(''error'', PStr ''No active page. Call /browser/start first.'')]"

text \<open>Reading a key of a returned dictionary.\<close>

definition field :: "result \<Rightarrow> string \<Rightarrow> pyval option" where
  "field r k = map_of r k"

subsection \<open>start (lines 21-31)\<close>

text \<open>
  Each field is assigned as soon as its call returns, so a failure part of the way leaves
  the earlier assignments in place. The \<^verbatim>\<open>except Exception\<close> turns every failure into an
  error result.
\<close>

definition start_failed :: "exn \<Rightarrow> result" where
  "start_failed e = [(''error'', PStr (''Failed to start browser: '' @ str e))]"

definition start :: "'e engine \<Rightarrow> session \<Rightarrow> 'e world \<Rightarrow> (exn + result) \<times> session \<times> 'e world" where
  "start eng s w =
     (case invoke CPwStart (pw_start eng) w of
        (Inl e, w1) \<Rightarrow> (Inr (start_failed e), s, w1)
      | (Inr pw, w1) \<Rightarrow>
          (let s1 = s\<lparr>self_playwright := Some pw\<rparr> in
           case invoke (CLaunch pw False) (chromium_launch eng pw False) w1 of
             (Inl e, w2) \<Rightarrow> (Inr (start_failed e), s1, w2)
           | (Inr b, w2) \<Rightarrow>
               (let s2 = s1\<lparr>self_browser := Some b\<rparr> in
                case invoke (CNewContext b) (browser_new_context eng b) w2 of
                  (Inl e, w3) \<Rightarrow> (Inr (start_failed e), s2, w3)
                | (Inr c, w3) \<Rightarrow>
                    (let s3 = s2\<lparr>self_context := Some c\<rparr> in
                     case invoke (CNewPage c) (context_new_page eng c) w3 of
                       (Inl e, w4) \<Rightarrow> (Inr (start_failed e), s3, w4)
                     | (Inr p, w4) \<Rightarrow>
                         (Inr [(''status'', PStr ''Browser started'')],
                          s3\<lparr>self_page := Some p\<rparr>, w4)))))"

subsection \<open>navigate (lines 33-109)\<close>

text \<open>Lines 47-49: the URL gets a protocol unless it starts with one of the two prefixes.\<close>

definition ensure_protocol :: "string \<Rightarrow> string" where
  "ensure_protocol url =
     (if prefix ''http://'' url \<or> prefix ''https://'' url then url else ''https://'' @ url)"

text \<open>Lines 58-72: the body of the inner \<^verbatim>\<open>try\<close>.\<close>

definition navigate_primary ::
  "'e engine \<Rightarrow> handle \<Rightarrow> string \<Rightarrow> int \<Rightarrow> 'e world \<Rightarrow> (exn + result) \<times> 'e world" where
  "navigate_primary eng p url timeout w =
     (case invoke (CGoto p url ''domcontentloaded'') (page_goto eng p url ''domcontentloaded'') w of
        (Inl e, w1) \<Rightarrow> (Inl e, w1)
      | (Inr response, w1) \<Rightarrow>
          (case py_truediv2 timeout of
             Inl e \<Rightarrow> (Inl e, w1)
           | Inr budget \<Rightarrow>
               (case invoke (CWaitForLoadState p ''networkidle'' budget)
                       (page_wait_for_load_state eng p ''networkidle'' budget) w1 of
                  (Inl e, w2) \<Rightarrow> (Inl e, w2)
                | (Inr u, w2) \<Rightarrow>
                    (let final_url = page_url eng p (fst w2) in
                     case invoke (CTitle p) (page_title eng p) w2 of
                       (Inl e, w3) \<Rightarrow> (Inl e, w3)
                     | (Inr title, w3) \<Rightarrow>
                         (Inr [(''url'', PStr final_url),
                               (''title'', PStr title),
                               (''status'', PInt (case response of Some st \<Rightarrow> st | None \<Rightarrow> 200)),
                               (''message'', PStr (''Successfully navigated to '' @ final_url))],
                          w3)))))"

text \<open>Lines 74-86: the handler of the inner \<^verbatim>\<open>try\<close> for a timeout \<open>e\<close>.\<close>

definition navigate_timed_out ::
  "'e engine \<Rightarrow> handle \<Rightarrow> string \<Rightarrow> exn \<Rightarrow> 'e world \<Rightarrow> (exn + result) \<times> 'e world" where
  "navigate_timed_out eng p url e w =
     (let final_url = page_url eng p (fst w) in
      case invoke (CTitle p) (page_title eng p) w of
        (Inl e', w1) \<Rightarrow> (Inl e', w1)
      | (Inr title, w1) \<Rightarrow>
          (Inr [(''url'', PStr final_url),
                (''title'', PStr title),
                (''status'', PInt 200),
                (''warning'', PStr (''Navigation timed out but continuing with available content: '' @ str e)),
                (''message'', PStr (''Navigation to '' @ url @ '' timed out, but continuing with available content''))],
           w1))"

text \<open>Lines 57-86: the inner \<^verbatim>\<open>try\<close> with its handler; any other exception passes through.\<close>

definition navigate_inner ::
  "'e engine \<Rightarrow> handle \<Rightarrow> string \<Rightarrow> int \<Rightarrow> 'e world \<Rightarrow> (exn + result) \<times> 'e world" where
  "navigate_inner eng p url timeout w =
     (case navigate_primary eng p url timeout w of
        (Inl (PlaywrightTimeoutError m), w1) \<Rightarrow>
          navigate_timed_out eng p url (PlaywrightTimeoutError m) w1
      | (Inl (Exception m), w1) \<Rightarrow> (Inl (Exception m), w1)
      | (Inr r, w1) \<Rightarrow> (Inr r, w1))"

text \<open>Lines 46-86: the body of the outer \<^verbatim>\<open>try\<close>, after the URL is normalised.\<close>

definition navigate_body ::
  "'e engine \<Rightarrow> handle \<Rightarrow> string \<Rightarrow> int \<Rightarrow> 'e world \<Rightarrow> (exn + result) \<times> 'e world" where
  "navigate_body eng p url timeout w =
     (case invoke (CSetDefaultNavigationTimeout p timeout)
             (page_set_default_navigation_timeout eng p timeout) w of
        (Inl e, w1) \<Rightarrow> (Inl e, w1)
      | (Inr u, w1) \<Rightarrow> navigate_inner eng p url timeout w1)"

text \<open>
  Lines 88-109: the handler of the outer \<^verbatim>\<open>try\<close> for an exception \<open>e\<close>. The test
  \<^verbatim>\<open>if self.page\<close> holds here, since the method returned at line 44 otherwise. A failure of
  the reload or of the title read after it is logged and dropped.
\<close>

definition navigate_failed :: "string \<Rightarrow> exn \<Rightarrow> result" where
  "navigate_failed url e =
     [(''error'', PStr (''Navigation to '' @ url @ '' failed: '' @ str e)),
      (''suggestion'', PStr ''The page may have loaded partially. Try getting content or taking a screenshot.'')]"

definition navigate_recover ::
  "'e engine \<Rightarrow> handle \<Rightarrow> string \<Rightarrow> exn \<Rightarrow> 'e world \<Rightarrow> result \<times> 'e world" where
  "navigate_recover eng p url e w =
     (case invoke (CReload p ''domcontentloaded'') (page_reload eng p ''domcontentloaded'') w of
        (Inl reload_error, w1) \<Rightarrow> (navigate_failed url e, w1)
      | (Inr u, w1) \<Rightarrow>
          (let current = page_url eng p (fst w1) in
           case invoke (CTitle p) (page_title eng p) w1 of
             (Inl reload_error, w2) \<Rightarrow> (navigate_failed url e, w2)
           | (Inr title, w2) \<Rightarrow>
               ([(''url'', PStr current),
                 (''title'', PStr title),
                 (''status'', PInt 200),
                 (''warning'', PStr (''Recovered from navigation error: '' @ str e)),
                 (''message'', PStr ''Page recovered after navigation error'')],
                w2)))"

definition navigate ::
  "'e engine \<Rightarrow> string \<Rightarrow> int \<Rightarrow> session \<Rightarrow> 'e world \<Rightarrow> (exn + result) \<times> session \<times> 'e world" where
  "navigate eng url timeout s w =
     (case self_page s of
        None \<Rightarrow> (Inr not_initialized, s, w)
      | Some p \<Rightarrow>
          (let url' = ensure_protocol url in
           case navigate_body eng p url' timeout w of
             (Inr r, w1) \<Rightarrow> (Inr r, s, w1)
           | (Inl e, w1) \<Rightarrow>
               (case navigate_recover eng p url' e w1 of (r, w2) \<Rightarrow> (Inr r, s, w2))))"

subsection \<open>click and type_text (lines 111-139)\<close>

definition click ::
  "'e engine \<Rightarrow> string \<Rightarrow> session \<Rightarrow> 'e world \<Rightarrow> (exn + result) \<times> session \<times> 'e world" where
  "click eng selector s w =
     (case self_page s of
        None \<Rightarrow> (Inr not_initialized, s, w)
      | Some p \<Rightarrow>
          (case invoke (CClick p selector 30000) (page_click eng p selector 30000) w of
             (Inr u, w1) \<Rightarrow> (Inr [(''status'', PStr (''Clicked element: '' @ selector))], s, w1)
           | (Inl (PlaywrightTimeoutError m), w1) \<Rightarrow>
               (Inr [(''error'', PStr (''Click timed out: '' @ selector))], s, w1)
           | (Inl (Exception m), w1) \<Rightarrow>
               (Inr [(''error'', PStr (''Click failed: '' @ m))], s, w1)))"

definition type_text ::
  "'e engine \<Rightarrow> string \<Rightarrow> string \<Rightarrow> session \<Rightarrow> 'e world \<Rightarrow> (exn + result) \<times> session \<times> 'e world" where
  "type_text eng selector text s w =
     (case self_page s of
        None \<Rightarrow> (Inr not_initialized, s, w)
      | Some p \<Rightarrow>
          (case invoke (CFill p selector text 30000) (page_fill eng p selector text 30000) w of
             (Inr u, w1) \<Rightarrow> (Inr [(''status'', PStr (''Typed text into: '' @ selector))], s, w1)
           | (Inl (PlaywrightTimeoutError m), w1) \<Rightarrow>
               (Inr [(''error'', PStr (''Type text timed out: '' @ selector))], s, w1)
           | (Inl (Exception m), w1) \<Rightarrow>
               (Inr [(''error'', PStr (''Type text failed: '' @ m))], s, w1)))"

subsection \<open>get_content (lines 141-200)\<close>

text \<open>
  Lines 193-200: the handler reads \<^verbatim>\<open>self.page.url if self.page else ""\<close>; the page is
  set here, since the method returned at line 144 otherwise, so the URL is the page's.
\<close>

definition get_content_failed :: "'e engine \<Rightarrow> handle \<Rightarrow> exn \<Rightarrow> 'e world \<Rightarrow> result" where
  "get_content_failed eng p e w =
     [(''error'', PStr (''Failed to get page content: '' @ str e)),
      (''title'', PStr []),
      (''content'', PStr []),
      (''url'', PStr (page_url eng p (fst w)))]"

definition get_content ::
  "'e engine \<Rightarrow> session \<Rightarrow> 'e world \<Rightarrow> (exn + result) \<times> session \<times> 'e world" where
  "get_content eng s w =
     (case self_page s of
        None \<Rightarrow> (Inr no_active_page, s, w)
      | Some p \<Rightarrow>
          (case invoke (CTitle p) (page_title eng p) w of
             (Inl e, w1) \<Rightarrow> (Inr (get_content_failed eng p e w1), s, w1)
           | (Inr title, w1) \<Rightarrow>
               (case invoke (CEvaluate p) (page_evaluate eng p) w1 of
                  (Inl e, w2) \<Rightarrow> (Inr (get_content_failed eng p e w2), s, w2)
                | (Inr content, w2) \<Rightarrow>
                    (Inr [(''title'', PStr title),
                          (''content'', PStr content),
                          (''url'', PStr (page_url eng p (fst w2)))],
                     s, w2))))"

subsection \<open>take_screenshot (lines 202-215)\<close>

definition take_screenshot ::
  "'e engine \<Rightarrow> session \<Rightarrow> 'e world \<Rightarrow> (exn + result) \<times> session \<times> 'e world" where
  "take_screenshot eng s w =
     (case self_page s of
        None \<Rightarrow> (Inr not_initialized, s, w)
      | Some p \<Rightarrow>
          (case invoke (CScreenshot p ''png'') (page_screenshot eng p ''png'') w of
             (Inl e, w1) \<Rightarrow> (Inr [(''error'', PStr (''Screenshot failed: '' @ str e))], s, w1)
           | (Inr screenshot, w1) \<Rightarrow>
               (Inr [(''screenshot'', PStr (b64encode screenshot)),
                     (''type'', PStr ''image/png'')],
                s, w1)))"

subsection \<open>close (lines 217-227)\<close>

text \<open>
  The two awaited calls are not inside a \<^verbatim>\<open>try\<close>: an exception of either ends
  the call at once, before any field is reset.
\<close>

definition close ::
  "'e engine \<Rightarrow> session \<Rightarrow> 'e world \<Rightarrow> (exn + result) \<times> session \<times> 'e world" where
  "close eng s w =
     (case (case self_browser s of
              None \<Rightarrow> (Inr (), w)
            | Some b \<Rightarrow> invoke (CBrowserClose b) (browser_close eng b) w) of
        (Inl e, w1) \<Rightarrow> (Inl e, s, w1)
      | (Inr u, w1) \<Rightarrow>
          (case (case self_playwright s of
                   None \<Rightarrow> (Inr (), w1)
                 | Some pw \<Rightarrow> invoke (CPwStop pw) (pw_stop eng pw) w1) of
             (Inl e, w2) \<Rightarrow> (Inl e, s, w2)
           | (Inr u', w2) \<Rightarrow>
               (Inr [(''status'', PStr ''Browser closed'')],
                s\<lparr>self_browser := None, self_context := None,
                  self_page := None, self_playwright := None\<rparr>,
                w2)))"

subsection \<open>Cookies (lines 229-263)\<close>

text \<open>
  The three methods test \<^verbatim>\<open>self.page\<close> and then call \<^verbatim>\<open>self.context\<close>. With the
  context unset the attribute lookup on \<^verbatim>\<open>None\<close> raises \<^verbatim>\<open>AttributeError\<close> inside the
  \<^verbatim>\<open>try\<close>, before any engine call.
\<close>

definition none_has_no_attribute :: "string \<Rightarrow> exn" where
  "none_has_no_attribute a =
     Exception ([CHR 0x27] @ ''NoneType'' @ [CHR 0x27] @ '' object has no attribute ''
                @ [CHR 0x27] @ a @ [CHR 0x27])"

definition get_cookies ::
  "'e engine \<Rightarrow> session \<Rightarrow> 'e world \<Rightarrow> (exn + result) \<times> session \<times> 'e world" where
  "get_cookies eng s w =
     (case self_page s of
        None \<Rightarrow> (Inr not_initialized, s, w)
      | Some p \<Rightarrow>
          (case (case self_context s of
                   None \<Rightarrow> (Inl (none_has_no_attribute ''cookies''), w)
                 | Some c \<Rightarrow> invoke (CCookies c) (context_cookies eng c) w) of
             (Inl e, w1) \<Rightarrow> (Inr [(''error'', PStr (''Failed to get cookies: '' @ str e))], s, w1)
           | (Inr cookies, w1) \<Rightarrow> (Inr [(''cookies'', PCookies cookies)], s, w1)))"

definition add_cookies ::
  "'e engine \<Rightarrow> cookie list \<Rightarrow> session \<Rightarrow> 'e world \<Rightarrow> (exn + result) \<times> session \<times> 'e world" where
  "add_cookies eng cookies s w =
     (case self_page s of
        None \<Rightarrow> (Inr not_initialized, s, w)
      | Some p \<Rightarrow>
          (case (case self_context s of
                   None \<Rightarrow> (Inl (none_has_no_attribute ''add_cookies''), w)
                 | Some c \<Rightarrow> invoke (CAddCookies c cookies) (context_add_cookies eng c cookies) w) of
             (Inl e, w1) \<Rightarrow> (Inr [(''error'', PStr (''Failed to add cookies: '' @ str e))], s, w1)
           | (Inr u, w1) \<Rightarrow> (Inr [(''status'', PStr ''Cookies added'')], s, w1)))"

definition delete_cookies ::
  "'e engine \<Rightarrow> cookie list \<Rightarrow> session \<Rightarrow> 'e world \<Rightarrow> (exn + result) \<times> session \<times> 'e world" where
  "delete_cookies eng cookies s w =
     (case self_page s of
        None \<Rightarrow> (Inr not_initialized, s, w)
      | Some p \<Rightarrow>
          (case (case self_context s of
                   None \<Rightarrow> (Inl (none_has_no_attribute ''delete_cookies''), w)
                 | Some c \<Rightarrow>
                     invoke (CDeleteCookies c cookies) (context_delete_cookies eng c cookies) w) of
             (Inl e, w1) \<Rightarrow> (Inr [(''error'', PStr (''Failed to delete cookies: '' @ str e))], s, w1)
           | (Inr u, w1) \<Rightarrow> (Inr [(''status'', PStr ''Cookies deleted'')], s, w1)))"

subsection \<open>The public methods as one interface\<close>

text \<open>
  The eight actions that need a started session, and all ten public methods. A caller
  drives the controller through a sequence of methods; a method that raises hands the
  exception to its caller and leaves the fields as they were at the raise.
\<close>

datatype action =
    Navigate string int
  | Click string
  | TypeText string string
  | GetContent
  | TakeScreenshot
  | GetCookies
  | AddCookies "cookie list"
  | DeleteCookies "cookie list"

fun act :: "'e engine \<Rightarrow> action \<Rightarrow> session \<Rightarrow> 'e world \<Rightarrow> (exn + result) \<times> session \<times> 'e world" where
  "act eng (Navigate url timeout) = navigate eng url timeout"
| "act eng (Click selector) = click eng selector"
| "act eng (TypeText selector text) = type_text eng selector text"
| "act eng GetContent = get_content eng"
| "act eng TakeScreenshot = take_screenshot eng"
| "act eng GetCookies = get_cookies eng"
| "act eng (AddCookies cookies) = add_cookies eng cookies"
| "act eng (DeleteCookies cookies) = delete_cookies eng cookies"

datatype operation = Start | Close | Action action

fun perform :: "'e engine \<Rightarrow> operation \<Rightarrow> session \<Rightarrow> 'e world \<Rightarrow> (exn + result) \<times> session \<times> 'e world" where
  "perform eng Start = start eng"
| "perform eng Close = close eng"
| "perform eng (Action a) = act eng a"

fun run :: "'e engine \<Rightarrow> operation list \<Rightarrow> session \<Rightarrow> 'e world \<Rightarrow> session \<times> 'e world" where
  "run eng [] s w = (s, w)"
| "run eng (m # ms) s w = (case perform eng m s w of (r, s', w') \<Rightarrow> run eng ms s' w')"

text \<open>The "not initialized" results: the one of \<^verbatim>\<open>get_content\<close> has its own wording.\<close>

fun not_initialized_of :: "action \<Rightarrow> result" where
  "not_initialized_of GetContent = no_active_page"
| "not_initialized_of a = not_initialized"

subsection \<open>Engines for concrete runs\<close>

text \<open>
  An engine whose every call succeeds. Its state counts the calls made; the page it
  serves has a fixed URL and title.
\<close>

definition stub :: "nat engine" where
  "stub =
     \<lparr>pw_start = (\<lambda>n. (Inr 1, Suc n)),
      chromium_launch = (\<lambda>pw headless n. (Inr 2, Suc n)),
      browser_new_context = (\<lambda>b n. (Inr 3, Suc n)),
      context_new_page = (\<lambda>c n. (Inr 4, Suc n)),
      page_set_default_navigation_timeout = (\<lambda>p t n. (Inr (), Suc n)),
      page_goto = (\<lambda>p url wait_until n. (Inr (Some 200), Suc n)),
      page_wait_for_load_state = (\<lambda>p state t n. (Inr (), Suc n)),
      page_url = (\<lambda>p n. ''https://example.com/''),
      page_title = (\<lambda>p n. (Inr ''Example Domain'', Suc n)),
      page_reload = (\<lambda>p wait_until n. (Inr (), Suc n)),
      page_click = (\<lambda>p selector t n. (Inr (), Suc n)),
      page_fill = (\<lambda>p selector text t n. (Inr (), Suc n)),
      page_evaluate = (\<lambda>p n. (Inr ''Example Domain'', Suc n)),
      page_screenshot = (\<lambda>p ty n. (Inr [], Suc n)),
      browser_close = (\<lambda>b n. (Inr (), Suc n)),
      pw_stop = (\<lambda>pw n. (Inr (), Suc n)),
      context_cookies = (\<lambda>c n. (Inr [], Suc n)),
      context_add_cookies = (\<lambda>c cookies n. (Inr (), Suc n)),
      context_delete_cookies = (\<lambda>c cookies n. (Inr (), Suc n))\<rparr>"

text \<open>A started session, as \<open>start\<close> leaves it on the engine above.\<close>

definition ready :: session where
  "ready = \<lparr>self_playwright = Some 1, self_browser = Some 2, self_context = Some 3, self_page = Some 4\<rparr>"

text \<open>Engines that fail at chosen calls and succeed at every other.\<close>

definition goto_fails :: "nat engine" where
  "goto_fails =
     stub\<lparr>page_goto := (\<lambda>p url wait_until n. (Inl (Exception ''net::ERR_NAME_NOT_RESOLVED''), Suc n))\<rparr>"

definition goto_and_reload_fail :: "nat engine" where
  "goto_and_reload_fail =
     goto_fails\<lparr>page_reload := (\<lambda>p wait_until n. (Inl (Exception ''net::ERR_INTERNET_DISCONNECTED''), Suc n))\<rparr>"

definition goto_and_title_fail :: "nat engine" where
  "goto_and_title_fail =
     goto_fails\<lparr>page_title := (\<lambda>p n. (Inl (Exception ''Execution context was destroyed''), Suc n))\<rparr>"

definition idle_times_out :: "nat engine" where
  "idle_times_out =
     stub\<lparr>page_wait_for_load_state :=
            (\<lambda>p state t n. (Inl (PlaywrightTimeoutError ''Timeout 15000ms exceeded.''), Suc n))\<rparr>"

definition idle_times_out_page_gone :: "nat engine" where
  "idle_times_out_page_gone =
     idle_times_out\<lparr>page_title := (\<lambda>p n. (Inl (Exception ''Target closed''), Suc n)),
                    page_reload := (\<lambda>p wait_until n. (Inl (Exception ''Target closed''), Suc n))\<rparr>"

definition idle_times_out_title_late :: "nat engine" where
  "idle_times_out_title_late =
     idle_times_out\<lparr>page_title :=
       (\<lambda>p n. if n = 3 then (Inl (Exception ''Execution context was destroyed''), Suc n)
              else (Inr ''Example Domain'', Suc n))\<rparr>"

definition goto_times_out :: "nat engine" where
  "goto_times_out =
     stub\<lparr>page_goto :=
            (\<lambda>p url wait_until n. (Inl (PlaywrightTimeoutError ''Timeout 30000ms exceeded.''), Suc n))\<rparr>"

definition goto_times_out_title_fails :: "nat engine" where
  "goto_times_out_title_fails =
     goto_times_out\<lparr>page_title := (\<lambda>p n. (Inl (Exception ''Execution context was destroyed''), Suc n))\<rparr>"

definition close_fails :: "nat engine" where
  "close_fails = stub\<lparr>browser_close := (\<lambda>b n. (Inl (Exception ''Connection closed''), Suc n))\<rparr>"

definition stop_fails :: "nat engine" where
  "stop_fails = stub\<lparr>pw_stop := (\<lambda>pw n. (Inl (Exception ''Connection closed''), Suc n))\<rparr>"

definition context_fails :: "nat engine" where
  "context_fails =
     stub\<lparr>browser_new_context := (\<lambda>b n. (Inl (Exception ''Target closed''), Suc n))\<rparr>"

definition title_fails :: "nat engine" where
  "title_fails =
     stub\<lparr>page_title := (\<lambda>p n. (Inl (Exception ''Execution context was destroyed''), Suc n))\<rparr>"

definition evaluate_fails :: "nat engine" where
  "evaluate_fails =
     stub\<lparr>page_evaluate := (\<lambda>p n. (Inl (Exception ''Execution context was destroyed''), Suc n))\<rparr>"

subsection \<open>The specification's reading of "no scheme is present"\<close>

text \<open>
  Follows the specification, not the source: a URL has a scheme when it begins with a
  letter followed by letters, digits, \<open>+\<close>, \<open>-\<close> or \<open>.\<close>, and then \<open>://\<close>. The
  target the specification asks for keeps such a URL and prefixes any other.
\<close>

definition is_letter :: "char \<Rightarrow> bool" where
  "is_letter c =
     ((97 \<le> (of_char c :: nat) \<and> (of_char c :: nat) \<le> 122)
      \<or> (65 \<le> (of_char c :: nat) \<and> (of_char c :: nat) \<le> 90))"

definition is_scheme_char :: "char \<Rightarrow> bool" where
  "is_scheme_char c =
     (is_letter c \<or> (48 \<le> (of_char c :: nat) \<and> (of_char c :: nat) \<le> 57)
      \<or> c = CHR ''+'' \<or> c = CHR ''-'' \<or> c = CHR ''.'')"

definition spec_has_scheme :: "string \<Rightarrow> bool" where
  "spec_has_scheme url =
     (case takeWhile is_scheme_char url of
        [] \<Rightarrow> False
      | c # cs \<Rightarrow> is_letter c \<and> prefix ''://'' (dropWhile is_scheme_char url))"

definition spec_target :: "string \<Rightarrow> string" where
  "spec_target url = (if spec_has_scheme url then url else ''https://'' @ url)"

section \<open>Properties\<close>

subsection \<open>No action raises, and no action assigns a field\<close>

lemma navigate_returns: "\<exists>r w'. navigate eng url timeout s w = (Inr r, s, w')"
  by (auto simp: navigate_def Let_def split: option.splits prod.splits sum.splits)

lemma click_returns: "\<exists>r w'. click eng selector s w = (Inr r, s, w')"
  by (auto simp: click_def split: option.splits prod.splits sum.splits exn.splits)

lemma type_text_returns: "\<exists>r w'. type_text eng selector text s w = (Inr r, s, w')"
  by (auto simp: type_text_def split: option.splits prod.splits sum.splits exn.splits)

lemma get_content_returns: "\<exists>r w'. get_content eng s w = (Inr r, s, w')"
  by (auto simp: get_content_def split: option.splits prod.splits sum.splits)

lemma take_screenshot_returns: "\<exists>r w'. take_screenshot eng s w = (Inr r, s, w')"
  by (auto simp: take_screenshot_def split: option.splits prod.splits sum.splits)

lemma get_cookies_returns: "\<exists>r w'. get_cookies eng s w = (Inr r, s, w')"
  by (auto simp: get_cookies_def split: option.splits prod.splits sum.splits)

lemma add_cookies_returns: "\<exists>r w'. add_cookies eng cookies s w = (Inr r, s, w')"
  by (auto simp: add_cookies_def split: option.splits prod.splits sum.splits)

lemma delete_cookies_returns: "\<exists>r w'. delete_cookies eng cookies s w = (Inr r, s, w')"
  by (auto simp: delete_cookies_def split: option.splits prod.splits sum.splits)

lemma start_returns: "\<exists>r s' w'. start eng s w = (Inr r, s', w')"
  by (auto simp: start_def Let_def split: prod.splits sum.splits)

lemma act_returns: "\<exists>r w'. act eng a s w = (Inr r, s, w')"
  by (cases a)
     (simp_all only: act.simps navigate_returns click_returns type_text_returns
        get_content_returns take_screenshot_returns get_cookies_returns add_cookies_returns
        delete_cookies_returns)

text \<open>
  C9. Whatever the engine does, each of the eight actions returns a result (success or
  error) and hands back the session with its fields exactly as they were; this holds in
  every session state, the started ones included.
\<close>

theorem action_keeps_session: "\<exists>r w'. act eng a s w = (Inr r, s, w')"
  by (rule act_returns)

theorem action_keeps_session_witness:
  "\<exists>r w'. act title_fails GetContent ready (0, []) = (Inr r, ready, w')"
  using action_keeps_session [of title_fails GetContent ready "(0, [])"] by simp

text \<open>
  C5. With \<^verbatim>\<open>self.page\<close> unset, each of the eight actions returns its "not initialized"
  error at once: nothing is raised, the session is unchanged, and the engine state and
  the call log are unchanged, so no engine operation was invoked.
\<close>

theorem actions_before_start:
  "self_page s = None \<Longrightarrow> act eng a s w = (Inr (not_initialized_of a), s, w)"
  by (cases a)
     (simp_all add: navigate_def click_def type_text_def get_content_def take_screenshot_def
        get_cookies_def add_cookies_def delete_cookies_def)

theorem actions_before_start_witness:
  "self_page init = None
   \<and> act stub (Navigate ''example.com'' 30000) init (0, []) =
       (Inr [(''error'', PStr ''Browser not initialized. Call /browser/start first.'')], init, (0, []))
   \<and> act stub GetContent init (0, []) =
       (Inr [(''error'', PStr ''No active page. Call /browser/start first.'')], init, (0, []))"
  using actions_before_start [of init stub "Navigate ''example.com'' 30000" "(0, [])"]
        actions_before_start [of init stub GetContent "(0, [])"]
  by (simp add: init_def not_initialized_def no_active_page_def)

text \<open>
  C3. \<^verbatim>\<open>close\<close> awaits the engine outside any \<^verbatim>\<open>try\<close>. On a started session whose engine
  raises in \<^verbatim>\<open>browser.close()\<close>, the exception reaches the caller and the fields stay set.
\<close>

theorem close_propagates:
  "close close_fails ready (0, []) =
     (Inl (Exception ''Connection closed''), ready, (1, [CBrowserClose 2]))"
  by (simp add: close_def close_fails_def stub_def ready_def invoke_def)

subsection \<open>The budget of the network-idle wait\<close>

lemma drop_bits_small: "n < 2 ^ 53 \<Longrightarrow> drop_bits n = 0"
  by (subst drop_bits.simps) simp

lemma drop_bits_one: "n < 2 ^ 54 \<Longrightarrow> \<not> n < 2 ^ 53 \<Longrightarrow> drop_bits n = 1"
  by (subst drop_bits.simps) (simp add: drop_bits_small)

lemma round53_small: "n < 2 ^ 53 \<Longrightarrow> round53 n = n"
  by (simp add: round53_def drop_bits_small)

text \<open>Below \<open>2^53\<close> the quotient is exact; just above, it is rounded, as Python does.\<close>

lemma py_truediv2_exact:
  assumes "\<bar>t\<bar> < 2 ^ 53"
  shows "py_truediv2 t = Inr (of_int t / 2)"
proof -
  from assms have n: "nat \<bar>t\<bar> < 2 ^ 53" by (simp add: nat_less_iff)
  have q: "(of_int (sgn t) * of_nat (round53 (nat \<bar>t\<bar>)) / 2 :: rat) = of_int t / 2"
    by (simp add: round53_small [OF n] sgn_if)
  have "\<bar>of_int t :: rat\<bar> < 2 ^ 53"
    using assms by (metis of_int_abs of_int_less_numeral_power_cancel_iff)
  then have "\<bar>of_int t / 2 :: rat\<bar> < 2 ^ 1024" by simp
  with q show ?thesis by (simp add: py_truediv2_def Let_def)
qed

lemma py_truediv2_30000: "py_truediv2 30000 = Inr 15000"
  using py_truediv2_exact [of 30000] by simp

lemma py_truediv2_rounds: "py_truediv2 (2 ^ 53 + 1) = Inr (2 ^ 52)"
  by (simp add: py_truediv2_def round53_def drop_bits_one)

subsection \<open>navigate: the three tiers\<close>

lemmas nav_defs = navigate_def navigate_body_def navigate_inner_def navigate_primary_def
  navigate_timed_out_def navigate_recover_def navigate_failed_def invoke_def Let_def

text \<open>
  C1. In a started session, when \<^verbatim>\<open>goto\<close> raises an exception that is not a timeout, the
  controller reloads the page exactly once, waiting for DOM-content-loaded, and never
  raises. If the reload and the title read that follows it both succeed, the result is
  a success with status 200 and the warning "Recovered from navigation error: ...". If
  the reload raises, or the title read after it raises, the result is an error with the
  fixed suggestion string.
\<close>

theorem navigate_hard_failure:
  assumes "self_page s = Some p"
    and "page_set_default_navigation_timeout eng p timeout (fst w) = (Inr (), e1)"
    and "page_goto eng p (ensure_protocol url) ''domcontentloaded'' e1 = (Inl (Exception m), e2)"
  shows "navigate eng url timeout s w =
     (case page_reload eng p ''domcontentloaded'' e2 of
        (Inl reload_error, e3) \<Rightarrow>
          (Inr [(''error'', PStr (''Navigation to '' @ ensure_protocol url @ '' failed: '' @ m)),
                (''suggestion'', PStr ''The page may have loaded partially. Try getting content or taking a screenshot.'')],
           s,
           (e3, snd w @ [CSetDefaultNavigationTimeout p timeout,
                         CGoto p (ensure_protocol url) ''domcontentloaded'',
                         CReload p ''domcontentloaded'']))
      | (Inr u, e3) \<Rightarrow>
          (case page_title eng p e3 of
             (Inl title_error, e4) \<Rightarrow>
               (Inr [(''error'', PStr (''Navigation to '' @ ensure_protocol url @ '' failed: '' @ m)),
                     (''suggestion'', PStr ''The page may have loaded partially. Try getting content or taking a screenshot.'')],
                s,
                (e4, snd w @ [CSetDefaultNavigationTimeout p timeout,
                              CGoto p (ensure_protocol url) ''domcontentloaded'',
                              CReload p ''domcontentloaded'', CTitle p]))
           | (Inr title, e4) \<Rightarrow>
               (Inr [(''url'', PStr (page_url eng p e3)),
                     (''title'', PStr title),
                     (''status'', PInt 200),
                     (''warning'', PStr (''Recovered from navigation error: '' @ m)),
                     (''message'', PStr ''Page recovered after navigation error'')],
                s,
                (e4, snd w @ [CSetDefaultNavigationTimeout p timeout,
                              CGoto p (ensure_protocol url) ''domcontentloaded'',
                              CReload p ''domcontentloaded'', CTitle p]))))
     \<and> filter is_reload (snd (snd (snd (navigate eng url timeout s w)))) =
         filter is_reload (snd w) @ [CReload p ''domcontentloaded'']"
  using assms by (simp add: nav_defs split: prod.splits sum.splits)

theorem navigate_hard_failure_witness:
  "navigate goto_fails ''example.com'' 30000 ready (0, []) =
     (Inr [(''url'', PStr ''https://example.com/''),
           (''title'', PStr ''Example Domain''),
           (''status'', PInt 200),
           (''warning'', PStr ''Recovered from navigation error: net::ERR_NAME_NOT_RESOLVED''),
           (''message'', PStr ''Page recovered after navigation error'')],
      ready,
      (4, [CSetDefaultNavigationTimeout 4 30000, CGoto 4 ''https://example.com'' ''domcontentloaded'',
           CReload 4 ''domcontentloaded'', CTitle 4]))
   \<and> navigate goto_and_reload_fail ''example.com'' 30000 ready (0, []) =
     (Inr [(''error'', PStr ''Navigation to https://example.com failed: net::ERR_NAME_NOT_RESOLVED''),
           (''suggestion'', PStr ''The page may have loaded partially. Try getting content or taking a screenshot.'')],
      ready,
      (3, [CSetDefaultNavigationTimeout 4 30000, CGoto 4 ''https://example.com'' ''domcontentloaded'',
           CReload 4 ''domcontentloaded'']))"
  using navigate_hard_failure [where s = ready and p = 4 and eng = goto_fails and timeout = 30000
          and w = "(0, [])" and ?e1.0 = 1 and url = "''example.com''"
          and m = "''net::ERR_NAME_NOT_RESOLVED''" and ?e2.0 = 2]
        navigate_hard_failure [where s = ready and p = 4 and eng = goto_and_reload_fail and timeout = 30000
          and w = "(0, [])" and ?e1.0 = 1 and url = "''example.com''"
          and m = "''net::ERR_NAME_NOT_RESOLVED''" and ?e2.0 = 2]
  by (simp add: ready_def goto_fails_def goto_and_reload_fail_def stub_def ensure_protocol_def)

text \<open>
  The reload can succeed and the result still be the error: here \<^verbatim>\<open>goto\<close> raises a
  non-timeout exception, the reload returns, and the title read after it raises.
\<close>

theorem navigate_hard_failure_counterexample:
  "page_goto goto_and_title_fail 4 ''https://example.com'' ''domcontentloaded'' 1 =
     (Inl (Exception ''net::ERR_NAME_NOT_RESOLVED''), 2)
   \<and> page_reload goto_and_title_fail 4 ''domcontentloaded'' 2 = (Inr (), 3)
   \<and> navigate goto_and_title_fail ''example.com'' 30000 ready (0, []) =
     (Inr [(''error'', PStr ''Navigation to https://example.com failed: net::ERR_NAME_NOT_RESOLVED''),
           (''suggestion'', PStr ''The page may have loaded partially. Try getting content or taking a screenshot.'')],
      ready,
      (4, [CSetDefaultNavigationTimeout 4 30000, CGoto 4 ''https://example.com'' ''domcontentloaded'',
           CReload 4 ''domcontentloaded'', CTitle 4]))"
  by (simp add: nav_defs ready_def goto_and_title_fail_def goto_fails_def stub_def ensure_protocol_def)

text \<open>
  C2. In a started session, when \<^verbatim>\<open>goto\<close> returns and the network-idle wait with budget
  \<^verbatim>\<open>timeout/2\<close> raises a timeout, the result is success-shaped (the page's current URL
  and title, status 200, a warning) whenever the title can be read: by the timeout
  handler, which gives the soft success, or, when that read raises, by the recovery
  after its reload, which gives the recovered result. Only when the handler's title read
  raises and then the reload or the title read after it raises is the result the error.
\<close>

theorem navigate_idle_timeout:
  assumes "self_page s = Some p"
    and "page_set_default_navigation_timeout eng p timeout (fst w) = (Inr (), e1)"
    and "page_goto eng p (ensure_protocol url) ''domcontentloaded'' e1 = (Inr response, e2)"
    and "py_truediv2 timeout = Inr budget"
    and "page_wait_for_load_state eng p ''networkidle'' budget e2 = (Inl (PlaywrightTimeoutError m), e3)"
  shows "navigate eng url timeout s w =
     (case page_title eng p e3 of
        (Inr title, e4) \<Rightarrow>
          (Inr [(''url'', PStr (page_url eng p e3)),
                (''title'', PStr title),
                (''status'', PInt 200),
                (''warning'', PStr (''Navigation timed out but continuing with available content: '' @ m)),
                (''message'', PStr (''Navigation to '' @ ensure_protocol url @ '' timed out, but continuing with available content''))],
           s,
           (e4, snd w @ [CSetDefaultNavigationTimeout p timeout,
                         CGoto p (ensure_protocol url) ''domcontentloaded'',
                         CWaitForLoadState p ''networkidle'' budget, CTitle p]))
      | (Inl title_error, e4) \<Rightarrow>
          (case page_reload eng p ''domcontentloaded'' e4 of
             (Inl reload_error, e5) \<Rightarrow>
               (Inr [(''error'', PStr (''Navigation to '' @ ensure_protocol url @ '' failed: '' @ str title_error)),
                     (''suggestion'', PStr ''The page may have loaded partially. Try getting content or taking a screenshot.'')],
                s,
                (e5, snd w @ [CSetDefaultNavigationTimeout p timeout,
                              CGoto p (ensure_protocol url) ''domcontentloaded'',
                              CWaitForLoadState p ''networkidle'' budget, CTitle p,
                              CReload p ''domcontentloaded'']))
           | (Inr u, e5) \<Rightarrow>
               (case page_title eng p e5 of
                  (Inl reload_error, e6) \<Rightarrow>
                    (Inr [(''error'', PStr (''Navigation to '' @ ensure_protocol url @ '' failed: '' @ str title_error)),
                          (''suggestion'', PStr ''The page may have loaded partially. Try getting content or taking a screenshot.'')],
                     s,
                     (e6, snd w @ [CSetDefaultNavigationTimeout p timeout,
                                   CGoto p (ensure_protocol url) ''domcontentloaded'',
                                   CWaitForLoadState p ''networkidle'' budget, CTitle p,
                                   CReload p ''domcontentloaded'', CTitle p]))
                | (Inr title, e6) \<Rightarrow>
                    (Inr [(''url'', PStr (page_url eng p e5)),
                          (''title'', PStr title),
                          (''status'', PInt 200),
                          (''warning'', PStr (''Recovered from navigation error: '' @ str title_error)),
                          (''message'', PStr ''Page recovered after navigation error'')],
                     s,
                     (e6, snd w @ [CSetDefaultNavigationTimeout p timeout,
                                   CGoto p (ensure_protocol url) ''domcontentloaded'',
                                   CWaitForLoadState p ''networkidle'' budget, CTitle p,
                                   CReload p ''domcontentloaded'', CTitle p])))))"
  using assms by (simp add: nav_defs split: prod.splits sum.splits)

theorem navigate_idle_timeout_witness:
  "navigate idle_times_out ''example.com'' 30000 ready (0, []) =
     (Inr [(''url'', PStr ''https://example.com/''),
           (''title'', PStr ''Example Domain''),
           (''status'', PInt 200),
           (''warning'', PStr ''Navigation timed out but continuing with available content: Timeout 15000ms exceeded.''),
           (''message'', PStr ''Navigation to https://example.com timed out, but continuing with available content'')],
      ready,
      (4, [CSetDefaultNavigationTimeout 4 30000, CGoto 4 ''https://example.com'' ''domcontentloaded'',
           CWaitForLoadState 4 ''networkidle'' 15000, CTitle 4]))
   \<and> navigate idle_times_out_title_late ''example.com'' 30000 ready (0, []) =
     (Inr [(''url'', PStr ''https://example.com/''),
           (''title'', PStr ''Example Domain''),
           (''status'', PInt 200),
           (''warning'', PStr ''Recovered from navigation error: Execution context was destroyed''),
           (''message'', PStr ''Page recovered after navigation error'')],
      ready,
      (6, [CSetDefaultNavigationTimeout 4 30000, CGoto 4 ''https://example.com'' ''domcontentloaded'',
           CWaitForLoadState 4 ''networkidle'' 15000, CTitle 4, CReload 4 ''domcontentloaded'',
           CTitle 4]))"
  using navigate_idle_timeout [where s = ready and p = 4 and eng = idle_times_out and timeout = 30000
          and w = "(0, [])" and ?e1.0 = 1 and url = "''example.com''" and response = "Some 200"
          and ?e2.0 = 2 and budget = 15000 and m = "''Timeout 15000ms exceeded.''" and ?e3.0 = 3]
        navigate_idle_timeout [where s = ready and p = 4 and eng = idle_times_out_title_late
          and timeout = 30000
          and w = "(0, [])" and ?e1.0 = 1 and url = "''example.com''" and response = "Some 200"
          and ?e2.0 = 2 and budget = 15000 and m = "''Timeout 15000ms exceeded.''" and ?e3.0 = 3]
  by (simp add: ready_def idle_times_out_def idle_times_out_title_late_def stub_def
        ensure_protocol_def py_truediv2_30000)

text \<open>
  The result is not always success-shaped: here \<^verbatim>\<open>goto\<close> returns, the wait times out,
  the title read of the handler raises, which starts the recovery, and the reload raises
  too.
\<close>

theorem navigate_idle_timeout_counterexample:
  "page_goto idle_times_out_page_gone 4 ''https://example.com'' ''domcontentloaded'' 1 =
     (Inr (Some 200), 2)
   \<and> page_wait_for_load_state idle_times_out_page_gone 4 ''networkidle'' 15000 2 =
     (Inl (PlaywrightTimeoutError ''Timeout 15000ms exceeded.''), 3)
   \<and> navigate idle_times_out_page_gone ''example.com'' 30000 ready (0, []) =
     (Inr [(''error'', PStr ''Navigation to https://example.com failed: Target closed''),
           (''suggestion'', PStr ''The page may have loaded partially. Try getting content or taking a screenshot.'')],
      ready,
      (5, [CSetDefaultNavigationTimeout 4 30000, CGoto 4 ''https://example.com'' ''domcontentloaded'',
           CWaitForLoadState 4 ''networkidle'' 15000, CTitle 4, CReload 4 ''domcontentloaded'']))"
  by (simp add: nav_defs ready_def idle_times_out_page_gone_def idle_times_out_def stub_def
        ensure_protocol_def py_truediv2_30000)

text \<open>
  C10. In a started session, when \<^verbatim>\<open>goto\<close> itself raises a timeout and the title read of
  the handler succeeds, the result is the soft success (current URL and title, status
  200, a warning) and no reload is attempted.
\<close>

theorem navigate_goto_timeout:
  assumes "self_page s = Some p"
    and "page_set_default_navigation_timeout eng p timeout (fst w) = (Inr (), e1)"
    and "page_goto eng p (ensure_protocol url) ''domcontentloaded'' e1 = (Inl (PlaywrightTimeoutError m), e2)"
    and "page_title eng p e2 = (Inr title, e3)"
  shows "navigate eng url timeout s w =
     (Inr [(''url'', PStr (page_url eng p e2)),
           (''title'', PStr title),
           (''status'', PInt 200),
           (''warning'', PStr (''Navigation timed out but continuing with available content: '' @ m)),
           (''message'', PStr (''Navigation to '' @ ensure_protocol url @ '' timed out, but continuing with available content''))],
      s,
      (e3, snd w @ [CSetDefaultNavigationTimeout p timeout,
                    CGoto p (ensure_protocol url) ''domcontentloaded'', CTitle p]))
     \<and> filter is_reload (snd (snd (snd (navigate eng url timeout s w)))) = filter is_reload (snd w)"
  using assms by (simp add: nav_defs)

theorem navigate_goto_timeout_witness:
  "navigate goto_times_out ''example.com'' 30000 ready (0, []) =
     (Inr [(''url'', PStr ''https://example.com/''),
           (''title'', PStr ''Example Domain''),
           (''status'', PInt 200),
           (''warning'', PStr ''Navigation timed out but continuing with available content: Timeout 30000ms exceeded.''),
           (''message'', PStr ''Navigation to https://example.com timed out, but continuing with available content'')],
      ready,
      (3, [CSetDefaultNavigationTimeout 4 30000, CGoto 4 ''https://example.com'' ''domcontentloaded'',
           CTitle 4]))"
  using navigate_goto_timeout [where s = ready and p = 4 and eng = goto_times_out and timeout = 30000
          and w = "(0, [])" and ?e1.0 = 1 and url = "''example.com''"
          and m = "''Timeout 30000ms exceeded.''" and ?e2.0 = 2
          and title = "''Example Domain''" and ?e3.0 = 3]
  by (simp add: ready_def goto_times_out_def stub_def ensure_protocol_def)

text \<open>
  When the title read of the handler raises, the reload is attempted after all: here
  \<^verbatim>\<open>goto\<close> times out, the title read raises, and the log shows the reload.
\<close>

theorem navigate_goto_timeout_counterexample:
  "page_goto goto_times_out_title_fails 4 ''https://example.com'' ''domcontentloaded'' 1 =
     (Inl (PlaywrightTimeoutError ''Timeout 30000ms exceeded.''), 2)
   \<and> navigate goto_times_out_title_fails ''example.com'' 30000 ready (0, []) =
     (Inr [(''error'', PStr ''Navigation to https://example.com failed: Execution context was destroyed''),
           (''suggestion'', PStr ''The page may have loaded partially. Try getting content or taking a screenshot.'')],
      ready,
      (5, [CSetDefaultNavigationTimeout 4 30000, CGoto 4 ''https://example.com'' ''domcontentloaded'',
           CTitle 4, CReload 4 ''domcontentloaded'', CTitle 4]))"
  by (simp add: nav_defs ready_def goto_times_out_title_fails_def goto_times_out_def stub_def
        ensure_protocol_def)

subsection \<open>navigate: the target requested\<close>

lemma ensure_protocol_example:
  "ensure_protocol ''example.com'' = ''https://example.com''"
  "ensure_protocol ''https://example.com'' = ''https://example.com''"
  by (simp_all add: ensure_protocol_def)

lemma timed_out_gotos:
  "filter is_goto (snd (snd (navigate_timed_out eng p url e w))) = filter is_goto (snd w)"
  by (simp add: navigate_timed_out_def invoke_def Let_def split: prod.splits sum.splits)

lemma recover_gotos:
  "filter is_goto (snd (snd (navigate_recover eng p url e w))) = filter is_goto (snd w)"
  by (simp add: navigate_recover_def invoke_def Let_def split: prod.splits sum.splits)

lemma primary_gotos:
  "filter is_goto (snd (snd (navigate_primary eng p url timeout w))) =
     filter is_goto (snd w) @ [CGoto p url ''domcontentloaded'']"
  by (simp add: navigate_primary_def invoke_def Let_def split: prod.splits sum.splits)

lemma inner_gotos:
  "filter is_goto (snd (snd (navigate_inner eng p url timeout w))) =
     filter is_goto (snd w) @ [CGoto p url ''domcontentloaded'']"
proof -
  obtain r w1 where prim: "navigate_primary eng p url timeout w = (r, w1)"
    by (cases "navigate_primary eng p url timeout w") auto
  with primary_gotos [of eng p url timeout w]
  have log: "filter is_goto (snd w1) = filter is_goto (snd w) @ [CGoto p url ''domcontentloaded'']"
    by simp
  show ?thesis
  proof (cases r)
    case (Inl e)
    with prim log show ?thesis
      by (cases e) (simp_all add: navigate_inner_def timed_out_gotos)
  next
    case (Inr res)
    with prim log show ?thesis by (simp add: navigate_inner_def)
  qed
qed

lemma navigate_gotos:
  assumes "self_page s = Some p"
    and "page_set_default_navigation_timeout eng p timeout (fst w) = (Inr (), e1)"
  shows "filter is_goto (snd (snd (snd (navigate eng url timeout s w)))) =
           filter is_goto (snd w) @ [CGoto p (ensure_protocol url) ''domcontentloaded'']"
proof -
  let ?w1 = "(e1, snd w @ [CSetDefaultNavigationTimeout p timeout])"
  have body: "navigate_body eng p (ensure_protocol url) timeout w =
                navigate_inner eng p (ensure_protocol url) timeout ?w1"
    using assms(2) by (simp add: navigate_body_def invoke_def)
  have inner: "filter is_goto (snd (snd (navigate_inner eng p (ensure_protocol url) timeout ?w1))) =
                 filter is_goto (snd w) @ [CGoto p (ensure_protocol url) ''domcontentloaded'']"
    using inner_gotos [of eng p "ensure_protocol url" timeout ?w1] by simp
  obtain r w2 where res: "navigate_inner eng p (ensure_protocol url) timeout ?w1 = (r, w2)"
    by (cases "navigate_inner eng p (ensure_protocol url) timeout ?w1") auto
  with inner have w2: "filter is_goto (snd w2) =
      filter is_goto (snd w) @ [CGoto p (ensure_protocol url) ''domcontentloaded'']" by simp
  show ?thesis
  proof (cases r)
    case (Inl e)
    with res body assms(1) w2 recover_gotos [of eng p "ensure_protocol url" e w2]
    show ?thesis by (auto simp: navigate_def Let_def split: prod.splits)
  next
    case (Inr ok)
    with res body assms(1) w2 show ?thesis by (simp add: navigate_def Let_def)
  qed
qed

text \<open>
  C7. In a started session whose navigation gets as far as \<^verbatim>\<open>goto\<close>, the one \<^verbatim>\<open>goto\<close>
  the call makes is for the URL itself when the URL starts with \<^verbatim>\<open>http://\<close> or
  \<^verbatim>\<open>https://\<close> (compared case-sensitively), and for \<^verbatim>\<open>https://\<close> followed by the URL
  in every other case. Navigating to \<^verbatim>\<open>example.com\<close> is the same computation as
  navigating to \<^verbatim>\<open>https://example.com\<close>.
\<close>

theorem navigate_target:
  assumes "self_page s = Some p"
    and "page_set_default_navigation_timeout eng p timeout (fst w) = (Inr (), e1)"
  shows "filter is_goto (snd (snd (snd (navigate eng url timeout s w)))) =
           filter is_goto (snd w) @
           [CGoto p (if prefix ''http://'' url \<or> prefix ''https://'' url then url
                     else ''https://'' @ url) ''domcontentloaded'']
         \<and> navigate eng ''example.com'' timeout s w = navigate eng ''https://example.com'' timeout s w"
proof
  show "filter is_goto (snd (snd (snd (navigate eng url timeout s w)))) =
           filter is_goto (snd w) @
           [CGoto p (if prefix ''http://'' url \<or> prefix ''https://'' url then url
                     else ''https://'' @ url) ''domcontentloaded'']"
    using navigate_gotos [OF assms, of url] by (simp add: ensure_protocol_def)
  show "navigate eng ''example.com'' timeout s w = navigate eng ''https://example.com'' timeout s w"
    by (simp only: navigate_def ensure_protocol_example)
qed

theorem navigate_target_witness:
  "filter is_goto (snd (snd (snd (navigate stub ''ftp://example.com'' 30000 ready (0, []))))) =
     [CGoto 4 ''https://ftp://example.com'' ''domcontentloaded'']
   \<and> filter is_goto (snd (snd (snd (navigate stub ''http://example.com'' 30000 ready (0, []))))) =
     [CGoto 4 ''http://example.com'' ''domcontentloaded'']
   \<and> navigate stub ''example.com'' 30000 ready (0, []) = navigate stub ''https://example.com'' 30000 ready (0, [])"
  using navigate_target [where s = ready and p = 4 and eng = stub and timeout = 30000
                           and w = "(0, [])" and ?e1.0 = 1 and url = "''ftp://example.com''"]
        navigate_target [where s = ready and p = 4 and eng = stub and timeout = 30000
                           and w = "(0, [])" and ?e1.0 = 1 and url = "''http://example.com''"]
  by (simp add: ready_def stub_def)

text \<open>
  A URL with a scheme other than the two is not left unchanged: \<^verbatim>\<open>ftp://example.com\<close>
  has a scheme, the target the specification asks for is the URL itself, and the
  controller requests \<^verbatim>\<open>https://ftp://example.com\<close> instead.
\<close>

theorem navigate_target_counterexample:
  "spec_has_scheme ''ftp://example.com''
   \<and> CGoto 4 (spec_target ''ftp://example.com'') ''domcontentloaded''
       \<notin> set (snd (snd (snd (navigate stub ''ftp://example.com'' 30000 ready (0, [])))))
   \<and> CGoto 4 ''https://ftp://example.com'' ''domcontentloaded''
       \<in> set (snd (snd (snd (navigate stub ''ftp://example.com'' 30000 ready (0, [])))))"
  by (simp add: nav_defs ready_def stub_def ensure_protocol_def py_truediv2_30000
        spec_target_def spec_has_scheme_def is_scheme_char_def is_letter_def)

subsection \<open>get_content on failure\<close>

text \<open>
  C8. In a started session, when the title read raises, or the title read returns and
  the script evaluation raises, \<^verbatim>\<open>get_content\<close> returns (it does not raise) a result
  with the error message, an empty title, an empty content, and as URL the page's
  current URL.
\<close>

theorem get_content_failure:
  assumes "self_page s = Some p"
    and "page_title eng p (fst w) = (Inl e, e1)
         \<or> (\<exists>title e0. page_title eng p (fst w) = (Inr title, e0)
                        \<and> page_evaluate eng p e0 = (Inl e, e1))"
  shows "\<exists>log. get_content eng s w =
     (Inr [(''error'', PStr (''Failed to get page content: '' @ str e)),
           (''title'', PStr ''''),
           (''content'', PStr ''''),
           (''url'', PStr (page_url eng p e1))],
      s, (e1, log))"
  using assms by (auto simp: get_content_def get_content_failed_def invoke_def)

theorem get_content_failure_witness:
  "(\<exists>log. get_content title_fails ready (0, []) =
     (Inr [(''error'', PStr ''Failed to get page content: Execution context was destroyed''),
           (''title'', PStr ''''),
           (''content'', PStr ''''),
           (''url'', PStr ''https://example.com/'')],
      ready, (1, log)))
   \<and> (\<exists>log. get_content evaluate_fails ready (0, []) =
     (Inr [(''error'', PStr ''Failed to get page content: Execution context was destroyed''),
           (''title'', PStr ''''),
           (''content'', PStr ''''),
           (''url'', PStr ''https://example.com/'')],
      ready, (2, log)))"
  using get_content_failure [where s = ready and p = 4 and eng = title_fails and w = "(0, [])"
          and e = "Exception ''Execution context was destroyed''" and ?e1.0 = 1]
        get_content_failure [where s = ready and p = 4 and eng = evaluate_fails and w = "(0, [])"
          and e = "Exception ''Execution context was destroyed''" and ?e1.0 = 2]
  by (simp add: ready_def title_fails_def evaluate_fails_def stub_def)

text \<open>
  The URL of the failure result is not empty in a started session: with the title read
  raising on a page at \<^verbatim>\<open>https://example.com/\<close>, the result carries that URL.
\<close>

theorem get_content_failure_counterexample:
  "self_page ready \<noteq> None
   \<and> fst (page_title title_fails 4 0) = Inl (Exception ''Execution context was destroyed'')
   \<and> fst (get_content title_fails ready (0, [])) =
       Inr [(''error'', PStr ''Failed to get page content: Execution context was destroyed''),
            (''title'', PStr ''''),
            (''content'', PStr ''''),
            (''url'', PStr ''https://example.com/'')]
   \<and> field [(''error'', PStr ''Failed to get page content: Execution context was destroyed''),
             (''title'', PStr ''''),
             (''content'', PStr ''''),
             (''url'', PStr ''https://example.com/'')] ''url'' \<noteq> Some (PStr '''')"
  by (simp add: get_content_def get_content_failed_def invoke_def ready_def title_fails_def
        stub_def field_def)

subsection \<open>The session across calls\<close>

lemma start_page_browser:
  assumes "start eng s w = (r, s', w')"
    and "self_page s \<noteq> None \<longrightarrow> self_browser s \<noteq> None \<and> self_context s \<noteq> None"
  shows "self_page s' \<noteq> None \<longrightarrow> self_browser s' \<noteq> None \<and> self_context s' \<noteq> None"
  using assms
  by (auto simp: start_def invoke_def Let_def split: prod.splits sum.splits)

lemma close_page_browser:
  assumes "close eng s w = (r, s', w')"
    and "self_page s \<noteq> None \<longrightarrow> self_browser s \<noteq> None \<and> self_context s \<noteq> None"
  shows "self_page s' \<noteq> None \<longrightarrow> self_browser s' \<noteq> None \<and> self_context s' \<noteq> None"
  using assms
  by (auto simp: close_def split: prod.splits sum.splits option.splits)

lemma perform_page_browser:
  assumes "perform eng m s w = (r, s', w')"
    and "self_page s \<noteq> None \<longrightarrow> self_browser s \<noteq> None \<and> self_context s \<noteq> None"
  shows "self_page s' \<noteq> None \<longrightarrow> self_browser s' \<noteq> None \<and> self_context s' \<noteq> None"
proof (cases m)
  case Start
  with assms show ?thesis using start_page_browser [of eng s w r s' w'] by simp
next
  case Close
  with assms show ?thesis using close_page_browser [of eng s w r s' w'] by simp
next
  case (Action a)
  with assms(1) act_returns [of eng a s w] have "s' = s" by auto
  with assms(2) show ?thesis by simp
qed

lemma run_page_browser:
  assumes "run eng ms s w = (s', w')"
    and "self_page s \<noteq> None \<longrightarrow> self_browser s \<noteq> None \<and> self_context s \<noteq> None"
  shows "self_page s' \<noteq> None \<longrightarrow> self_browser s' \<noteq> None \<and> self_context s' \<noteq> None"
  using assms
proof (induction ms arbitrary: s w)
  case Nil
  then show ?case by simp
next
  case (Cons m ms)
  obtain r s1 w1 where step: "perform eng m s w = (r, s1, w1)"
    by (cases "perform eng m s w") auto
  with Cons.prems(1) have rest: "run eng ms s1 w1 = (s', w')" by simp
  from perform_page_browser [OF step Cons.prems(2)] Cons.IH [OF rest]
  show ?case by blast
qed

lemma start_page_iff:
  assumes "start eng s w = (r, s', w')"
    and ctx: "\<forall>b e. \<exists>c e'. browser_new_context eng b e = (Inr c, e')"
    and pg: "\<forall>c e. \<exists>p e'. context_new_page eng c e = (Inr p, e')"
    and "self_page s \<noteq> None \<longleftrightarrow> self_browser s \<noteq> None"
  shows "self_page s' \<noteq> None \<longleftrightarrow> self_browser s' \<noteq> None"
proof -
  have no_ctx: "browser_new_context eng b e \<noteq> (Inl x, e')" for b e x e'
    using ctx by (metis Inl_Inr_False prod.inject)
  have no_pg: "context_new_page eng c e \<noteq> (Inl x, e')" for c e x e'
    using pg by (metis Inl_Inr_False prod.inject)
  from assms(1,4) show ?thesis
    by (auto simp: start_def invoke_def Let_def no_ctx no_pg split: prod.splits sum.splits)
qed

lemma close_page_iff:
  assumes "close eng s w = (r, s', w')"
    and "self_page s \<noteq> None \<longleftrightarrow> self_browser s \<noteq> None"
  shows "self_page s' \<noteq> None \<longleftrightarrow> self_browser s' \<noteq> None"
  using assms
  by (auto simp: close_def split: prod.splits sum.splits option.splits)

lemma perform_page_iff:
  assumes "perform eng m s w = (r, s', w')"
    and "\<forall>b e. \<exists>c e'. browser_new_context eng b e = (Inr c, e')"
    and "\<forall>c e. \<exists>p e'. context_new_page eng c e = (Inr p, e')"
    and "self_page s \<noteq> None \<longleftrightarrow> self_browser s \<noteq> None"
  shows "self_page s' \<noteq> None \<longleftrightarrow> self_browser s' \<noteq> None"
proof (cases m)
  case Start
  with assms show ?thesis using start_page_iff [of eng s w r s' w'] by simp
next
  case Close
  with assms show ?thesis using close_page_iff [of eng s w r s' w'] by simp
next
  case (Action a)
  with assms(1) act_returns [of eng a s w] have "s' = s" by auto
  with assms(4) show ?thesis by simp
qed

lemma run_page_iff:
  assumes "run eng ms s w = (s', w')"
    and "\<forall>b e. \<exists>c e'. browser_new_context eng b e = (Inr c, e')"
    and "\<forall>c e. \<exists>p e'. context_new_page eng c e = (Inr p, e')"
    and "self_page s \<noteq> None \<longleftrightarrow> self_browser s \<noteq> None"
  shows "self_page s' \<noteq> None \<longleftrightarrow> self_browser s' \<noteq> None"
  using assms(1,4)
proof (induction ms arbitrary: s w)
  case Nil
  then show ?case by simp
next
  case (Cons m ms)
  obtain r s1 w1 where step: "perform eng m s w = (r, s1, w1)"
    by (cases "perform eng m s w") auto
  with Cons.prems(1) have rest: "run eng ms s1 w1 = (s', w')" by simp
  from perform_page_iff [OF step assms(2,3) Cons.prems(2)]
  show ?case by (rule Cons.IH [OF rest])
qed

text \<open>
  C4. After any sequence of public methods on a fresh controller, whatever the engine
  does, a set page comes with a set browser and a set context. When the engine's
  context creation and page creation do not raise (its start and launch still may),
  the page is set exactly when the browser is.
\<close>

theorem page_iff_browser:
  assumes "run eng ms init w = (s', w')"
  shows "(self_page s' \<noteq> None \<longrightarrow> self_browser s' \<noteq> None \<and> self_context s' \<noteq> None)
       \<and> ((\<forall>b e. \<exists>c e'. browser_new_context eng b e = (Inr c, e'))
            \<and> (\<forall>c e. \<exists>p e'. context_new_page eng c e = (Inr p, e'))
          \<longrightarrow> (self_page s' \<noteq> None \<longleftrightarrow> self_browser s' \<noteq> None))"
proof (intro conjI impI)
  show "self_page s' \<noteq> None \<Longrightarrow> self_browser s' \<noteq> None"
    using run_page_browser [OF assms] by (simp add: init_def)
  show "self_page s' \<noteq> None \<Longrightarrow> self_context s' \<noteq> None"
    using run_page_browser [OF assms] by (simp add: init_def)
  assume "(\<forall>b e. \<exists>c e'. browser_new_context eng b e = (Inr c, e'))
            \<and> (\<forall>c e. \<exists>p e'. context_new_page eng c e = (Inr p, e'))"
  then show "self_page s' \<noteq> None \<longleftrightarrow> self_browser s' \<noteq> None"
    using run_page_iff [OF assms] by (simp add: init_def)
qed

theorem page_iff_browser_witness:
  "run stub [Start, Action GetContent] init (0, []) =
     (ready, (6, [CPwStart, CLaunch 1 False, CNewContext 2, CNewPage 3, CTitle 4, CEvaluate 4]))
   \<and> self_page ready \<noteq> None \<and> self_browser ready \<noteq> None \<and> self_context ready \<noteq> None
   \<and> (self_page ready \<noteq> None \<longleftrightarrow> self_browser ready \<noteq> None)"
proof -
  have r: "run stub [Start, Action GetContent] init (0, []) =
     (ready, (6, [CPwStart, CLaunch 1 False, CNewContext 2, CNewPage 3, CTitle 4, CEvaluate 4]))"
    by (simp add: start_def get_content_def invoke_def stub_def init_def ready_def)
  have p: "self_page ready \<noteq> None" by (simp add: ready_def)
  have c: "\<forall>b e. \<exists>c e'. browser_new_context stub b e = (Inr c, e')" by (simp add: stub_def)
  have g: "\<forall>c e. \<exists>p e'. context_new_page stub c e = (Inr p, e')" by (simp add: stub_def)
  from page_iff_browser [OF r] r p c g show ?thesis by blast
qed

text \<open>
  On a fresh controller, a \<^verbatim>\<open>start\<close> whose context creation raises returns its error
  with the browser set and the page unset.
\<close>

theorem partial_start_counterexample:
  "\<not> (self_page (fst (run context_fails [Start] init (0, []))) \<noteq> None
       \<longleftrightarrow> self_browser (fst (run context_fails [Start] init (0, []))) \<noteq> None)"
  by (simp add: start_def invoke_def context_fails_def stub_def init_def)

text \<open>
  \<^verbatim>\<open>close\<close> twice in a row. On an engine whose \<^verbatim>\<open>browser.close()\<close> and
  \<^verbatim>\<open>playwright.stop()\<close> do not raise, \<^verbatim>\<open>close\<close> in any session state returns success
  and leaves every field unset, and a second \<^verbatim>\<open>close\<close> right after returns success
  again, with the fields still unset and the engine state and call log untouched.
\<close>

lemma close_twice:
  assumes "\<And>b e. fst (browser_close eng b e) = Inr ()"
    and "\<And>pw e. fst (pw_stop eng pw e) = Inr ()"
  shows "\<exists>w1. close eng s w = (Inr [(''status'', PStr ''Browser closed'')], init, w1)
              \<and> close eng init w1 = (Inr [(''status'', PStr ''Browser closed'')], init, w1)"
proof -
  have second: "close eng init w1 = (Inr [(''status'', PStr ''Browser closed'')], init, w1)" for w1
    by (simp add: close_def init_def)
  have b: "\<exists>e'. browser_close eng b e = (Inr (), e')" for b e
    using assms(1) [of b e] by (cases "browser_close eng b e") simp
  have p: "\<exists>e'. pw_stop eng pw e = (Inr (), e')" for pw e
    using assms(2) [of pw e] by (cases "pw_stop eng pw e") simp
  have first: "\<exists>w1. close eng s w = (Inr [(''status'', PStr ''Browser closed'')], init, w1)"
  proof (cases "self_browser s")
    case None
    show ?thesis
    proof (cases "self_playwright s")
      case N: None
      with None show ?thesis by (simp add: close_def init_def)
    next
      case (Some pw)
      with None p [of pw "fst w"] show ?thesis
        by (auto simp: close_def init_def invoke_def)
    qed
  next
    case (Some b)
    from b [of b "fst w"] obtain e' where e': "browser_close eng b (fst w) = (Inr (), e')" ..
    show ?thesis
    proof (cases "self_playwright s")
      case None
      with Some e' show ?thesis by (simp add: close_def init_def invoke_def)
    next
      case S: (Some pw)
      with Some e' p [of pw e'] show ?thesis
        by (auto simp: close_def init_def invoke_def)
    qed
  qed
  with second show ?thesis by blast
qed

lemma close_twice_on_stub:
  "close stub ready (0, []) =
     (Inr [(''status'', PStr ''Browser closed'')], init, (2, [CBrowserClose 2, CPwStop 1]))
   \<and> close stub init (2, [CBrowserClose 2, CPwStop 1]) =
     (Inr [(''status'', PStr ''Browser closed'')], init, (2, [CBrowserClose 2, CPwStop 1]))"
proof -
  have b: "\<And>b e. fst (browser_close stub b e) = Inr ()" by (simp add: stub_def)
  have p: "\<And>pw e. fst (pw_stop stub pw e) = Inr ()" by (simp add: stub_def)
  have f: "close stub ready (0, []) =
     (Inr [(''status'', PStr ''Browser closed'')], init, (2, [CBrowserClose 2, CPwStop 1]))"
    by (simp add: close_def stub_def ready_def init_def invoke_def)
  from close_twice [OF b p, of ready "(0, [])"] f show ?thesis by auto
qed

text \<open>
  C6. \<^verbatim>\<open>close\<close> awaits the engine outside any \<^verbatim>\<open>try\<close>. On a started session whose
  engine raises in \<^verbatim>\<open>playwright.stop()\<close>, \<^verbatim>\<open>close\<close> called twice in a row raises both
  times instead of returning success, and the fields stay set.
\<close>

theorem close_twice_raises:
  "close stop_fails ready (0, []) =
     (Inl (Exception ''Connection closed''), ready, (2, [CBrowserClose 2, CPwStop 1]))
   \<and> close stop_fails ready (2, [CBrowserClose 2, CPwStop 1]) =
     (Inl (Exception ''Connection closed''), ready,
      (4, [CBrowserClose 2, CPwStop 1, CBrowserClose 2, CPwStop 1]))
   \<and> self_browser ready \<noteq> None \<and> self_context ready \<noteq> None \<and> self_page ready \<noteq> None"
  by (simp add: close_def stop_fails_def stub_def ready_def invoke_def)

end
